theory Spec2Isabelle
  imports Complex_Main "HOL-Library.Sublist" "HOL-Library.Word"
begin

section \<open>Strings\<close>

text \<open>
  Dataset paths are Python \<open>str\<close> values.  They are modelled as \<open>string\<close>, one
  \<open>char\<close> per character, which covers every path made of ASCII characters.  The
  tests the code makes on paths compare against ASCII literals only, and
  \<open>str.lower\<close> maps no other character to one of the letters of \<open>_names\<close>.
\<close>

text \<open>\<open>s.endswith(suf)\<close>\<close>

definition endswith :: "string \<Rightarrow> string \<Rightarrow> bool" where
  "endswith s suf = suffix suf s"

text \<open>\<open>sub in s\<close> on strings: \<open>sub\<close> occurs in \<open>s\<close> as a contiguous run.\<close>

fun str_contains :: "string \<Rightarrow> string \<Rightarrow> bool" where
  "str_contains sub [] = (sub = [])"
| "str_contains sub (c # cs) = (prefix sub (c # cs) \<or> str_contains sub cs)"

text \<open>\<open>s.lower()\<close>, on the letters A to Z.\<close>

definition lower_char :: "char \<Rightarrow> char" where
  "lower_char c =
     (case map_of (zip ''ABCDEFGHIJKLMNOPQRSTUVWXYZ'' ''abcdefghijklmnopqrstuvwxyz'') c of
        Some d \<Rightarrow> d
      | None \<Rightarrow> c)"

definition lower :: "string \<Rightarrow> string" where
  "lower s = map lower_char s"

section \<open>Containers\<close>

text \<open>
  \<open>np.dtype(dt).kind\<close>: \<open>'i'\<close>, \<open>'u'\<close>, \<open>'f'\<close>, or any of the other kind letters
  (booleans, complex numbers, strings, objects, ...).
\<close>

datatype dtype_kind = Kind_i | Kind_u | Kind_f | Kind_other

text \<open>
  A floating-point element is the exact rational it denotes, an infinity or a NaN.
  Only comparisons, rounding to an integer and the cast to \<open>uint8\<close> are applied to
  such elements, and all three are exact on the denoted value.
\<close>

datatype fval = Fin rat | PInf | NInf | NaN

text \<open>
  The floating-point element types: half, single and double precision, and the
  long double of the platform, which holds every double exactly.
\<close>

datatype float_type = Float16 | Float32 | Float64 | LongDouble

text \<open>
  The data of an array, in C order; the element type is part of it.  The shape is
  kept in the dataset record.
\<close>

datatype ndarray =
    SInts "int list"
  | UInts "int list"
  | Floats float_type "fval list"
  | Opaque

fun kind_of :: "ndarray \<Rightarrow> dtype_kind" where
  "kind_of (SInts _) = Kind_i"
| "kind_of (UInts _) = Kind_u"
| "kind_of (Floats _ _) = Kind_f"
| "kind_of Opaque = Kind_other"

record dataset =
  shape :: "nat list"
  contents :: ndarray

definition dtype :: "dataset \<Rightarrow> dtype_kind" where
  "dtype ds = kind_of (contents ds)"

datatype h5obj = Group | Dataset dataset

text \<open>
  An open \<open>h5py.File\<close>: the objects below the root with their paths, in the order in
  which \<open>visititems\<close> visits them.
\<close>

type_synonym h5file = "(string \<times> h5obj) list"

section \<open>h5\_convert.py: discovery and classification\<close>

definition is_metadata_name :: "string \<Rightarrow> bool" where
  "is_metadata_name name =
     (endswith name ''_mask_name_lst'' \<or> endswith (lower name) ''_names'')"

definition is_numeric_dtype :: "dtype_kind \<Rightarrow> bool" where
  "is_numeric_dtype dt = (dt \<in> {Kind_i, Kind_u, Kind_f})"

definition is_mask_name :: "string \<Rightarrow> bool" where
  "is_mask_name name = str_contains ''_mask_'' name"

text \<open>\<open>shape[-3:]\<close> is the last three dimensions.\<close>

definition is_3d_like_shape :: "nat list \<Rightarrow> bool" where
  "is_3d_like_shape shp =
     (if length shp < 3 then False
      else list_all (\<lambda>d. 0 < d) (drop (length shp - 3) shp))"

definition dataset_kind :: "string \<Rightarrow> dtype_kind \<Rightarrow> string" where
  "dataset_kind name dt =
     (if is_mask_name name then ''mask''
      else if dt \<in> {Kind_i, Kind_u} then ''mask''
      else ''image'')"

record candidate =
  c_name :: string
  c_shape :: "nat list"
  c_dtype :: dtype_kind
  c_kind :: string

text \<open>
  The inner function \<open>visitor\<close> of \<open>list_valid_datasets\<close>: \<open>Some\<close> the entry it
  appends to \<open>out\<close>, \<open>None\<close> when it returns without appending.
\<close>

fun visitor :: "string \<Rightarrow> string \<Rightarrow> h5obj \<Rightarrow> candidate option" where
  "visitor force_kind name Group = None"
| "visitor force_kind name (Dataset obj) =
     (if is_metadata_name name then None
      else if \<not> is_numeric_dtype (dtype obj) then None
      else if \<not> is_3d_like_shape (shape obj) then None
      else
        let kind = dataset_kind name (dtype obj) in
        if force_kind \<in> {''image'', ''mask''} \<and> kind \<noteq> force_kind then None
        else Some \<lparr>c_name = name, c_shape = shape obj, c_dtype = dtype obj, c_kind = kind\<rparr>)"

definition list_valid_datasets :: "h5file \<Rightarrow> string \<Rightarrow> candidate list" where
  "list_valid_datasets h5 force_kind =
     List.map_filter (\<lambda>(name, obj). visitor force_kind name obj) h5"

section \<open>NumPy operations on the elements\<close>

text \<open>\<open>a > b\<close> on floating-point values: false as soon as one side is a NaN.\<close>

fun fgt :: "fval \<Rightarrow> fval \<Rightarrow> bool" where
  "fgt NaN _ = False"
| "fgt _ NaN = False"
| "fgt (Fin a) (Fin b) = (b < a)"
| "fgt (Fin a) PInf = False"
| "fgt (Fin a) NInf = True"
| "fgt PInf PInf = False"
| "fgt PInf _ = True"
| "fgt NInf _ = False"

fun bit_length :: "nat \<Rightarrow> nat" where
  "bit_length n = (if n = 0 then 0 else Suc (bit_length (n div 2)))"

declare bit_length.simps [simp del]

text \<open>
  The conversion of an integer element to a double, which NumPy applies before it
  compares an integer array with a Python float or rounds it: exact up to
  \<open>2 ^ 53\<close>, and to the nearest double (ties to the even significand) beyond.
  \<open>np.rint\<close> converts the smaller integer types to smaller float types, which
  hold all their values.
\<close>

definition f64_of_int :: "int \<Rightarrow> rat" where
  "f64_of_int v =
     (if \<bar>v\<bar> \<le> 2 ^ 53 then of_int v
      else
        let a = nat \<bar>v\<bar>;
            e = bit_length a - 53;
            q = a div 2 ^ e;
            r = a mod 2 ^ e;
            q' = (if 2 * r > 2 ^ e \<or> (2 * r = 2 ^ e \<and> odd q) then q + 1 else q)
        in of_int (sgn v * int (q' * 2 ^ e)))"

text \<open>\<open>np.rint\<close>: to the nearest integer, ties to the even one.\<close>

definition round_half_even :: "rat \<Rightarrow> int" where
  "round_half_even q =
     (let f = \<lfloor>q\<rfloor>; d = q - of_int f in
      if d < 1 / 2 then f
      else if 1 / 2 < d then f + 1
      else if even f then f else f + 1)"

text \<open>
  The conversion of a Python float, which is a double, to a floating-point type
  (IEEE 754, round to nearest, ties to even).  \<open>precision\<close> counts the bits of
  the significand with the hidden one and \<open>emax\<close> is the largest exponent; the
  smallest exponent of a normal number is \<open>1 - emax\<close>.  \<open>floor_log2 a\<close> is the
  largest \<open>e\<close> with \<open>2 ^ e \<le> a\<close>, for \<open>a > 0\<close>.
\<close>

definition pow2 :: "int \<Rightarrow> rat" where
  "pow2 e = (if 0 \<le> e then 2 ^ nat e else 1 / 2 ^ nat (- e))"

definition floor_log2 :: "rat \<Rightarrow> int" where
  "floor_log2 a =
     (if 1 \<le> a then int (bit_length (nat \<lfloor>a\<rfloor>)) - 1
      else - int (bit_length (nat (\<lceil>1 / a\<rceil> - 1))))"

fun precision :: "float_type \<Rightarrow> int" where
  "precision Float16 = 11"
| "precision Float32 = 24"
| "precision Float64 = 53"
| "precision LongDouble = 64"

fun emax :: "float_type \<Rightarrow> int" where
  "emax Float16 = 15"
| "emax Float32 = 127"
| "emax Float64 = 1023"
| "emax LongDouble = 16383"

definition round_to_float :: "float_type \<Rightarrow> rat \<Rightarrow> fval" where
  "round_to_float ft q =
     (if q = 0 then Fin 0
      else
        let a = \<bar>q\<bar>;
            e = max (floor_log2 a) (1 - emax ft);
            ulp = pow2 (e - (precision ft - 1));
            r = of_int (round_half_even (a / ulp)) * ulp
        in if pow2 (emax ft + 1) \<le> r then (if 0 < q then PInf else NInf)
           else Fin (sgn q * r))"

fun cast_float :: "float_type \<Rightarrow> fval \<Rightarrow> fval" where
  "cast_float LongDouble x = x"
| "cast_float ft (Fin q) = round_to_float ft q"
| "cast_float ft x = x"

fun rint :: "fval \<Rightarrow> fval" where
  "rint (Fin q) = Fin (of_int (round_half_even q))"
| "rint x = x"

text \<open>
  \<open>astype(np.uint8)\<close>.  An integer wraps modulo 256, a boolean becomes 0 or 1.  A
  float is truncated towards zero; when the truncated value is not a \<open>uint8\<close>, or
  the float is not finite, C leaves the result to the platform, which is the
  parameter \<open>ub\<close>.
\<close>

definition int_to_u8 :: "int \<Rightarrow> 8 word" where
  "int_to_u8 v = word_of_int v"

definition bool_to_u8 :: "bool \<Rightarrow> 8 word" where
  "bool_to_u8 b = (if b then 1 else 0)"

definition trunc :: "rat \<Rightarrow> int" where
  "trunc q = (if 0 \<le> q then \<lfloor>q\<rfloor> else \<lceil>q\<rceil>)"

fun float_to_u8 :: "(fval \<Rightarrow> 8 word) \<Rightarrow> fval \<Rightarrow> 8 word" where
  "float_to_u8 ub (Fin q) =
     (if 0 \<le> trunc q \<and> trunc q \<le> 255 then word_of_int (trunc q) else ub (Fin q))"
| "float_to_u8 ub x = ub x"

datatype error =
    ValueError_not_3d "nat list"
  | OSError string
  | ValueError_unknown_mask_mode string
  | IndexError
  | KeyError string
  | TypeError

text \<open>
  \<open>arr > threshold\<close>, elementwise, for a \<open>threshold\<close> that is a Python float: the
  double \<open>t\<close>.  NumPy compares in the type of a floating-point array, to which it
  first converts \<open>t\<close>; it compares an integer array in double precision, to which
  it converts the elements (the promotion rules of NumPy 2).  Arrays that are not
  numeric are never selected; comparing one is an error here.
\<close>

fun greater :: "ndarray \<Rightarrow> fval \<Rightarrow> error + bool list" where
  "greater (SInts vs) t = Inr (map (\<lambda>v. fgt (Fin (f64_of_int v)) t) vs)"
| "greater (UInts vs) t = Inr (map (\<lambda>v. fgt (Fin (f64_of_int v)) t) vs)"
| "greater (Floats ft xs) t = Inr (map (\<lambda>x. fgt x (cast_float ft t)) xs)"
| "greater Opaque t = Inl TypeError"

text \<open>\<open>arr > 0\<close>, elementwise: an integer array is compared as integers.\<close>

fun greater_zero :: "ndarray \<Rightarrow> error + bool list" where
  "greater_zero (SInts vs) = Inr (map (\<lambda>v. 0 < v) vs)"
| "greater_zero (UInts vs) = Inr (map (\<lambda>v. 0 < v) vs)"
| "greater_zero (Floats ft xs) = Inr (map (\<lambda>x. fgt x (Fin 0)) xs)"
| "greater_zero Opaque = Inl TypeError"

fun astype_uint8 :: "(fval \<Rightarrow> 8 word) \<Rightarrow> ndarray \<Rightarrow> error + 8 word list" where
  "astype_uint8 ub (SInts vs) = Inr (map int_to_u8 vs)"
| "astype_uint8 ub (UInts vs) = Inr (map int_to_u8 vs)"
| "astype_uint8 ub (Floats ft xs) = Inr (map (float_to_u8 ub) xs)"
| "astype_uint8 ub Opaque = Inl TypeError"

text \<open>\<open>np.rint(arr).astype(np.uint8)\<close>: \<open>np.rint\<close> of an integer array is a float array.\<close>

fun rint_astype_uint8 :: "(fval \<Rightarrow> 8 word) \<Rightarrow> ndarray \<Rightarrow> error + 8 word list" where
  "rint_astype_uint8 ub (SInts vs) =
     Inr (map (\<lambda>v. float_to_u8 ub (rint (Fin (f64_of_int v)))) vs)"
| "rint_astype_uint8 ub (UInts vs) =
     Inr (map (\<lambda>v. float_to_u8 ub (rint (Fin (f64_of_int v)))) vs)"
| "rint_astype_uint8 ub (Floats ft xs) = Inr (map (\<lambda>x. float_to_u8 ub (rint x)) xs)"
| "rint_astype_uint8 ub Opaque = Inl TypeError"

text \<open>\<open>(arr > threshold).astype(np.uint8)\<close>\<close>

definition binarize :: "ndarray \<Rightarrow> fval \<Rightarrow> error + 8 word list" where
  "binarize arr t = map_sum id (map bool_to_u8) (greater arr t)"

text \<open>\<open>np.issubdtype(dt, np.integer)\<close>\<close>

definition is_integer_dtype :: "dtype_kind \<Rightarrow> bool" where
  "is_integer_dtype dt = (dt \<in> {Kind_i, Kind_u})"

section \<open>h5\_convert.py: conversion\<close>

text \<open>
  \<open>np.squeeze\<close> drops the dimensions of extent 1 and keeps the data in place.
\<close>

definition squeeze_to_3d :: "dataset \<Rightarrow> error + ndarray" where
  "squeeze_to_3d ds =
     (let shp = filter (\<lambda>d. d \<noteq> 1) (shape ds) in
      if length shp \<noteq> 3 then Inl (ValueError_not_3d shp) else Inr (contents ds))"

definition strip_slashes :: "string \<Rightarrow> string" where
  "strip_slashes s =
     rev (dropWhile (\<lambda>c. c = CHR ''/'') (rev (dropWhile (\<lambda>c. c = CHR ''/'') s)))"

definition safe_char :: "char \<Rightarrow> bool" where
  "safe_char c =
     (c \<in> set ''ABCDEFGHIJKLMNOPQRSTUVWXYZabcdefghijklmnopqrstuvwxyz0123456789_.-'')"

definition sanitize_filename :: "string \<Rightarrow> string" where
  "sanitize_filename name =
     (let base = strip_slashes name;
          base = map (\<lambda>c. if c = CHR ''/'' then CHR ''_'' else c) base
      in map (\<lambda>c. if safe_char c then c else CHR ''_'') base)"

text \<open>\<open>os.path.join(a, b)\<close> for a \<open>b\<close> that does not start with a slash.\<close>

definition path_join :: "string \<Rightarrow> string \<Rightarrow> string" where
  "path_join a b =
     (if a = [] \<or> endswith a ''/'' then a @ b else a @ ''/'' @ b)"

text \<open>
  The conversion of a mask in \<open>convert_one\<close>: the value of \<open>out_arr\<close>, or the
  exception raised for an unknown \<open>mask_mode\<close>.
\<close>

definition mask_out_arr ::
  "(fval \<Rightarrow> 8 word) \<Rightarrow> string \<Rightarrow> fval \<Rightarrow> dtype_kind \<Rightarrow> ndarray \<Rightarrow> error + 8 word list" where
  "mask_out_arr ub mask_mode threshold ds_dtype arr =
     (if mask_mode = ''auto'' then
        (if is_integer_dtype ds_dtype then astype_uint8 ub arr
         else binarize arr threshold)
      else if mask_mode = ''threshold'' then binarize arr threshold
      else if mask_mode = ''round'' then rint_astype_uint8 ub arr
      else Inl (ValueError_unknown_mask_mode mask_mode))"

text \<open>
  What \<open>convert_one\<close> does to the outside, in order; a step that fails leaves no
  entry.  An image is saved as its
  source array cast to \<open>float32\<close>; the rounding of that cast is not modelled, so
  the saved image is the source array under a tag.
\<close>

datatype volume = Mask_uint8 "8 word list" | Image_float32 ndarray

datatype effect =
    Print_no_valid_datasets
  | Print_selected string
  | Print_dry_run
  | Print_wrote string
  | Read_dataset string
  | Makedirs string
  | Save string volume

text \<open>
  NumPy's generators.  \<open>seeded s n\<close> is the first \<open>integers(0, n)\<close> of the generator
  \<open>default_rng(s)\<close>; \<open>entropy n\<close> is the first \<open>integers(0, n)\<close> of the generator
  that \<open>default_rng(None)\<close> builds from the entropy of the operating system at
  this invocation.  \<open>default_rng\<close> takes no negative seed, so a seed is a \<open>nat\<close>.
\<close>

definition default_rng ::
  "(nat \<Rightarrow> nat \<Rightarrow> nat) \<Rightarrow> (nat \<Rightarrow> nat) \<Rightarrow> nat option \<Rightarrow> nat \<Rightarrow> nat" where
  "default_rng seeded entropy seed =
     (case seed of None \<Rightarrow> entropy | Some s \<Rightarrow> seeded s)"

text \<open>
  The file system at the time of the call, as far as \<open>convert_one\<close> depends on
  it: whether the data of the dataset \<open>p\<close> can be read from the container,
  whether \<open>os.makedirs(p, exist_ok=True)\<close> succeeds for a non-empty path \<open>p\<close> (it
  fails when \<open>p\<close> or a parent is an existing file, or may not be written), and
  whether \<open>nib.save\<close> can write the file \<open>p\<close>.  \<open>os.makedirs\<close> fails for the empty
  path whatever the file system.  Each failure is an \<open>OSError\<close>.
\<close>

record filesystem =
  read_ok :: "string \<Rightarrow> bool"
  makedirs_ok :: "string \<Rightarrow> bool"
  save_ok :: "string \<Rightarrow> bool"

definition makedirs :: "filesystem \<Rightarrow> string \<Rightarrow> bool" where
  "makedirs fs p = (p \<noteq> [] \<and> makedirs_ok fs p)"

text \<open>\<open>f[name][()]\<close>\<close>

definition read_dataset :: "filesystem \<Rightarrow> h5file \<Rightarrow> string \<Rightarrow> error + dataset" where
  "read_dataset fs f name =
     (case map_of f name of
        None \<Rightarrow> Inl (KeyError name)
      | Some Group \<Rightarrow> Inl TypeError
      | Some (Dataset ds) \<Rightarrow> if read_ok fs name then Inr ds else Inl (OSError name))"

type_synonym outcome = "effect list \<times> (error + string option \<times> string option)"

definition convert_one ::
  "(nat \<Rightarrow> nat \<Rightarrow> nat) \<Rightarrow> (fval \<Rightarrow> 8 word) \<Rightarrow> (nat \<Rightarrow> nat) \<Rightarrow> filesystem \<Rightarrow>
   h5file \<Rightarrow> string \<Rightarrow> string \<Rightarrow> nat option \<Rightarrow> string \<Rightarrow> fval \<Rightarrow> bool \<Rightarrow> outcome" where
  "convert_one seeded ub entropy fs f out_dir force_kind seed mask_mode threshold dry_run =
     (let rng = default_rng seeded entropy seed;
          candidates = list_valid_datasets f force_kind in
        if candidates = [] then ([Print_no_valid_datasets], Inr (None, None))
        else
          let i = rng (length candidates) in
          if \<not> i < length candidates then ([], Inl IndexError)
          else
            let choice = candidates ! i;
                name = c_name choice;
                kind = c_kind choice;
                eff1 = [Print_selected name]
            in
            if dry_run then (eff1 @ [Print_dry_run], Inr (None, Some name))
            else
              let eff2 = eff1 @ [Read_dataset name] in
              (case read_dataset fs f name of
                Inl e \<Rightarrow> (eff1, Inl e)
              | Inr ds \<Rightarrow>
                (case squeeze_to_3d ds of
                   Inl e \<Rightarrow> (eff2, Inl e)
                 | Inr arr \<Rightarrow>
                   if \<not> makedirs fs out_dir then (eff2, Inl (OSError out_dir))
                   else
                     let eff3 = eff2 @ [Makedirs out_dir];
                         base = sanitize_filename name;
                         out_path = path_join out_dir (base @ ''.nii.gz'')
                     in
                     if kind = ''mask'' then
                       (case mask_out_arr ub mask_mode threshold (dtype ds) arr of
                          Inl e \<Rightarrow> (eff3, Inl e)
                        | Inr out_arr \<Rightarrow>
                          if \<not> save_ok fs out_path then (eff3, Inl (OSError out_path))
                          else
                            (eff3 @ [Save out_path (Mask_uint8 out_arr), Print_wrote out_path],
                             Inr (Some out_path, Some name)))
                     else
                       if \<not> save_ok fs out_path then (eff3, Inl (OSError out_path))
                       else
                         (eff3 @ [Save out_path (Image_float32 arr), Print_wrote out_path],
                          Inr (Some out_path, Some name)))))"

section \<open>pick\_and\_display.py\<close>

definition META_SUFFIX :: string where
  "META_SUFFIX = ''_mask_name_lst''"

definition MASK_TOKEN :: string where
  "MASK_TOKEN = ''mask_tibia''"

definition is_digit :: "char \<Rightarrow> bool" where
  "is_digit c = (c \<in> set ''0123456789'')"

text \<open>
  \<open>IMG_NAME_RE.match(s)\<close> for the pattern
  \<^verbatim>\<open>^\d+_tibia_[LR](?:\.nii(?:\.gz)?)?$\<close>:
  a non-empty run of digits, the literal, the side letter, the optional
  extensions; \<open>$\<close> also matches before a newline that ends the string.
\<close>

definition img_name_tails :: "string list" where
  "img_name_tails =
     concat (map (\<lambda>side. concat (map (\<lambda>ext. map (\<lambda>nl. ''_tibia_'' @ side @ ext @ nl)
        [[], [CHR 0x0A]]) [[], ''.nii'', ''.nii.gz''])) [''L'', ''R''])"

definition IMG_NAME_RE_match :: "string \<Rightarrow> bool" where
  "IMG_NAME_RE_match s =
     (takeWhile is_digit s \<noteq> [] \<and> dropWhile is_digit s \<in> set img_name_tails)"

definition strip_ext :: "string \<Rightarrow> string" where
  "strip_ext name =
     (if endswith name ''.nii.gz'' then take (length name - 7) name
      else if endswith name ''.nii'' then take (length name - 4) name
      else name)"

definition is_metadata :: "string \<Rightarrow> bool" where
  "is_metadata name = endswith name META_SUFFIX"

definition classify_kind :: "string \<Rightarrow> string" where
  "classify_kind name =
     (let base = strip_ext name in
      if str_contains MASK_TOKEN base then ''mask''
      else if IMG_NAME_RE_match name \<or> IMG_NAME_RE_match base then ''image''
      else ''other'')"

text \<open>The inner function \<open>visit\<close> of \<open>list_candidates\<close>.\<close>

fun visit :: "string option \<Rightarrow> string \<Rightarrow> h5obj \<Rightarrow> candidate option" where
  "visit force_kind name Group = None"
| "visit force_kind name (Dataset obj) =
     (if is_metadata name then None
      else if \<not> is_numeric_dtype (dtype obj) then None
      else
        let kind = classify_kind name in
        if kind = ''other'' then None
        else if force_kind \<in> {Some ''image'', Some ''mask''} \<and> Some kind \<noteq> force_kind then None
        else
          let shp = shape obj in
          if length shp < 3 \<or> list_ex (\<lambda>d. d \<le> 0) (drop (length shp - 3) shp) then None
          else Some \<lparr>c_name = name, c_shape = shp, c_dtype = dtype obj, c_kind = kind\<rparr>)"

definition list_candidates :: "h5file \<Rightarrow> string option \<Rightarrow> candidate list" where
  "list_candidates h5 force_kind =
     List.map_filter (\<lambda>(name, obj). visit force_kind name obj) h5"

text \<open>\<open>s.split(sep, 1)[0]\<close>: what precedes the first occurrence of \<open>sep\<close>, or all of \<open>s\<close>.\<close>

fun split_first :: "string \<Rightarrow> string \<Rightarrow> string" where
  "split_first sep [] = []"
| "split_first sep (c # cs) = (if prefix sep (c # cs) then [] else c # split_first sep cs)"

definition base_from_mask :: "string \<Rightarrow> string" where
  "base_from_mask name =
     (if str_contains MASK_TOKEN name then split_first (''_'' @ MASK_TOKEN) name else name)"

text \<open>
  The mask branch of \<open>main\<close>: the array \<open>lab\<close> written for the viewer, from the
  element type \<open>dt\<close> of the selected dataset, its squeezed data \<open>arr\<close> and the
  threshold.
\<close>

definition main_lab :: "fval \<Rightarrow> dtype_kind \<Rightarrow> ndarray \<Rightarrow> error + 8 word list" where
  "main_lab threshold dt arr =
     (if dt \<in> {Kind_i, Kind_u} then map_sum id (map bool_to_u8) (greater_zero arr)
      else binarize arr threshold)"

text \<open>
  The loop of \<open>main\<close> over the background keys: the first \<open>bg_key\<close> that is in the
  file and classifies as an image, at which the loop breaks; \<open>None\<close> when the
  loop ends without one.
\<close>

definition main_bg_key :: "h5file \<Rightarrow> string \<Rightarrow> string option" where
  "main_bg_key f name =
     (let base = base_from_mask name in
      find (\<lambda>bg_key. bg_key \<in> set (map fst f) \<and> classify_kind bg_key = ''image'')
        [base, base @ ''.nii'', base @ ''.nii.gz''])"

section \<open>Auxiliary predicate\<close>

text \<open>
  No position of the string starts with \<open>_m\<close>, and the string does not end with an
  underscore: then no occurrence of \<open>_mask_tibia\<close> can start inside it, whatever
  follows it.
\<close>

fun no_token_start :: "string \<Rightarrow> bool" where
  "no_token_start [] = True"
| "no_token_start [c] = (c \<noteq> CHR ''_'')"
| "no_token_start (c # d # cs) = ((c \<noteq> CHR ''_'' \<or> d \<noteq> CHR ''m'') \<and> no_token_start (d # cs))"

section \<open>Example inputs\<close>

text \<open>
  A generator whose first draw is always 0, a platform that casts to 0, and a
  file system in which every dataset can be read, every directory made and every
  file written.
\<close>

definition fs_writable :: filesystem where
  "fs_writable =
     \<lparr>read_ok = (\<lambda>p. True), makedirs_ok = (\<lambda>p. True), save_ok = (\<lambda>p. True)\<rparr>"

definition rng_zero :: "nat \<Rightarrow> nat \<Rightarrow> nat" where
  "rng_zero s n = 0"

definition entropy_zero :: "nat \<Rightarrow> nat" where
  "entropy_zero n = 0"

definition entropy_last :: "nat \<Rightarrow> nat" where
  "entropy_last n = n - 1"

definition ub_zero :: "fval \<Rightarrow> 8 word" where
  "ub_zero x = 0"

definition names_volume :: dataset where
  "names_volume = \<lparr>shape = [2, 2, 2], contents = SInts [0, 1, 2, 3, 0, 1, 2, 3]\<rparr>"

definition float_volume :: dataset where
  "float_volume = \<lparr>shape = [1, 2, 2, 2],
     contents = Floats Float32
       [Fin 0, Fin (1 / 4), Fin (1 / 2), Fin 1, Fin 3, NaN, PInf, Fin (- 2)]\<rparr>"

section \<open>Properties of discovery and classification\<close>

lemma endswith_append: "endswith seg suf \<Longrightarrow> endswith (pre @ seg) suf"
  by (simp add: endswith_def suffix_appendI)

lemma is_metadata_name_append:
  "is_metadata_name seg \<Longrightarrow> is_metadata_name (pre @ seg)"
  by (auto simp: is_metadata_name_def lower_def endswith_append)

lemma visitor_Some:
  "visitor fk name obj = Some c \<Longrightarrow>
     c_name c = name \<and> \<not> is_metadata_name name \<and> c_kind c \<in> {''mask'', ''image''}"
  by (cases obj) (auto simp: Let_def dataset_kind_def split: if_splits)

lemma list_valid_datasets_names:
  "c \<in> set (list_valid_datasets h5 fk) \<Longrightarrow> \<not> is_metadata_name (c_name c)"
  by (auto simp: list_valid_datasets_def List.map_filter_def dest: visitor_Some)

text \<open>
  C1.  A path whose trailing part ends with \<open>_mask_name_lst\<close>, or ends with
  \<open>_names\<close> in any letter case, is rejected by the visitor whatever the object
  stored there (any element type, any shape, a name holding the mask token or
  not) and whatever kind is asked for; no candidate listed for a container has
  such a path.
\<close>

theorem metadata_name_never_candidate:
  assumes "endswith seg ''_mask_name_lst'' \<or> endswith (lower seg) ''_names''"
  shows "visitor fk (pre @ seg) obj = None
       \<and> pre @ seg \<notin> c_name ` set (list_valid_datasets h5 fk)"
proof -
  from assms have "is_metadata_name seg"
    by (simp add: is_metadata_name_def)
  then have meta: "is_metadata_name (pre @ seg)"
    by (rule is_metadata_name_append)
  have "visitor fk (pre @ seg) obj = None"
    using meta by (cases obj) simp_all
  moreover have "pre @ seg \<notin> c_name ` set (list_valid_datasets h5 fk)"
    using meta list_valid_datasets_names by auto
  ultimately show ?thesis by simp
qed

theorem metadata_name_never_candidate_witness:
  "endswith (lower ''x_mask_NAMES'') ''_names''
   \<and> visitor ''mask'' (''grp/'' @ ''x_mask_NAMES'') (Dataset names_volume) = None
   \<and> ''grp/'' @ ''x_mask_NAMES'' \<notin> c_name `
        set (list_valid_datasets [(''grp'', Group), (''grp/x_mask_NAMES'', Dataset names_volume)] ''mask'')"
proof -
  have h: "endswith (lower ''x_mask_NAMES'') ''_names''"
    by (simp add: endswith_def lower_def lower_char_def suffix_to_prefix)
  show ?thesis
    using h metadata_name_never_candidate [of "''x_mask_NAMES''" "''mask''" "''grp/''"
        "Dataset names_volume"
        "[(''grp'', Group), (''grp/x_mask_NAMES'', Dataset names_volume)]"]
    by blast
qed

text \<open>
  C2.  For a name that is not a metadata name and does not contain \<open>_mask_\<close>,
  \<open>dataset_kind\<close> is \<open>mask\<close> for the signed and the unsigned integer types and \<open>image\<close>
  for the floating-point types; a dataset of that name with a 3-D-like shape is
  listed with that kind.
\<close>

theorem dtype_heuristic_type_priority:
  assumes "\<not> is_metadata_name name" and "\<not> str_contains ''_mask_'' name"
  shows "dataset_kind name Kind_i = ''mask''
       \<and> dataset_kind name Kind_u = ''mask''
       \<and> dataset_kind name Kind_f = ''image''
       \<and> (is_3d_like_shape (shape ds) \<and> dtype ds \<noteq> Kind_other \<longrightarrow>
            visitor ''any'' name (Dataset ds) =
              Some \<lparr>c_name = name, c_shape = shape ds, c_dtype = dtype ds,
                    c_kind = (if dtype ds = Kind_f then ''image'' else ''mask'')\<rparr>)"
proof -
  have nm: "\<not> is_mask_name name"
    using assms(2) by (simp add: is_mask_name_def)
  have k: "dataset_kind name dt = (if dt \<in> {Kind_i, Kind_u} then ''mask'' else ''image'')" for dt
    using nm by (simp add: dataset_kind_def)
  have num: "is_numeric_dtype dt = (dt \<noteq> Kind_other)" for dt
    by (cases dt) (simp_all add: is_numeric_dtype_def)
  show ?thesis
    using assms(1) by (cases "dtype ds") (simp_all add: k num Let_def)
qed

theorem dtype_heuristic_type_priority_witness:
  "\<not> is_metadata_name ''vol'' \<and> \<not> str_contains ''_mask_'' ''vol''
   \<and> dataset_kind ''vol'' Kind_i = ''mask''
   \<and> dataset_kind ''vol'' Kind_u = ''mask''
   \<and> dataset_kind ''vol'' Kind_f = ''image''
   \<and> map_option c_kind (visitor ''any'' ''vol'' (Dataset float_volume)) = Some ''image''"
proof -
  have h1: "\<not> is_metadata_name ''vol''"
    by (simp add: is_metadata_name_def endswith_def lower_def lower_char_def suffix_to_prefix)
  have h2: "\<not> str_contains ''_mask_'' ''vol''"
    by simp
  have h3: "is_3d_like_shape (shape float_volume) \<and> dtype float_volume \<noteq> Kind_other"
    by (simp add: is_3d_like_shape_def float_volume_def dtype_def)
  show ?thesis
    using h1 h2 h3 dtype_heuristic_type_priority [OF h1 h2, of float_volume]
    by (simp add: float_volume_def dtype_def)
qed


section \<open>Properties of mask normalization\<close>

lemma floor_rat_numeral_divide:
  "\<lfloor>(numeral a :: rat) / numeral b\<rfloor> = numeral a div numeral b"
  using floor_divide_of_int_eq [of "numeral a" "numeral b", where ?'a = rat] by simp

lemma ceiling_rat_numeral_divide:
  "\<lceil>(numeral a :: rat) / numeral b\<rceil> = - (- numeral a div numeral b)"
  using floor_divide_of_int_eq [of "- numeral a" "numeral b", where ?'a = rat]
  by (simp add: ceiling_def)

lemma bit_length_0: "bit_length 0 = 0"
  by (subst bit_length.simps) simp

lemma bit_length_Suc_0: "bit_length (Suc 0) = Suc 0"
  by (subst bit_length.simps) (simp add: bit_length_0)

lemma bit_length_Bit0: "bit_length (numeral (Num.Bit0 n)) = Suc (bit_length (numeral n))"
  by (subst bit_length.simps) simp

lemma bit_length_Bit1: "bit_length (numeral (Num.Bit1 n)) = Suc (bit_length (numeral n))"
  by (subst bit_length.simps) simp

lemmas float_eval =
  bit_length_0 bit_length_Suc_0 bit_length_Bit0 bit_length_Bit1
  floor_rat_numeral_divide ceiling_rat_numeral_divide
  round_to_float_def floor_log2_def pow2_def round_half_even_def Let_def

lemma cast_float_half: "cast_float ft (Fin (1 / 2)) = Fin (1 / 2)"
  by (cases ft) (simp_all add: float_eval)

lemma f64_of_int_exact: "\<bar>v\<bar> \<le> 2 ^ 53 \<Longrightarrow> f64_of_int v = of_int v"
  by (simp add: f64_of_int_def)

lemma f64_of_int_0: "f64_of_int 0 = 0"
  by (simp add: f64_of_int_def)

lemma f64_of_int_1: "f64_of_int 1 = 1"
  by (simp add: f64_of_int_def)

lemma round_half_even_0: "round_half_even 0 = 0"
  by (simp add: round_half_even_def)

lemma round_half_even_1: "round_half_even 1 = 1"
  by (simp add: round_half_even_def)

lemma trunc_0: "trunc 0 = 0"
  by (simp add: trunc_def)

lemma trunc_1: "trunc 1 = 1"
  by (simp add: trunc_def)

lemmas binary_evals =
  f64_of_int_0 f64_of_int_1 round_half_even_0 round_half_even_1 trunc_0 trunc_1

lemma round_cast_binary_int:
  assumes "v = 0 \<or> v = 1"
  shows "uint (float_to_u8 ub (rint (Fin (f64_of_int v)))) = v"
  using assms
proof
  assume "v = 0" then show ?thesis by (simp add: binary_evals)
next
  assume "v = 1" then show ?thesis by (simp add: binary_evals)
qed

lemma threshold_binary_int:
  assumes "v = 0 \<or> v = 1"
  shows "uint (bool_to_u8 (fgt (Fin (f64_of_int v)) (Fin (1 / 2)))) = v"
  using assms
proof
  assume "v = 0" then show ?thesis by (simp add: binary_evals bool_to_u8_def)
next
  assume "v = 1" then show ?thesis by (simp add: binary_evals bool_to_u8_def)
qed

lemma round_cast_binary_float:
  assumes "x = Fin 0 \<or> x = Fin 1"
  shows "Fin (of_int (uint (float_to_u8 ub (rint x)))) = x"
  using assms
proof
  assume "x = Fin 0" then show ?thesis by (simp add: binary_evals)
next
  assume "x = Fin 1" then show ?thesis by (simp add: binary_evals)
qed

lemma threshold_binary_float:
  assumes "x = Fin 0 \<or> x = Fin 1"
  shows "Fin (of_int (uint (bool_to_u8 (fgt x (cast_float ft (Fin (1 / 2))))))) = x"
  using assms
proof
  assume "x = Fin 0" then show ?thesis by (simp add: bool_to_u8_def cast_float_half)
next
  assume "x = Fin 1" then show ?thesis by (simp add: bool_to_u8_def cast_float_half)
qed

text \<open>
  C3 (as amended).  Under \<open>auto\<close>, \<open>convert_one\<close> casts an integer mask directly to
  \<open>uint8\<close>, each value kept modulo 256 with no thresholding, and binarizes a
  floating-point mask by \<open>value > threshold\<close>, the threshold converted to the type
  of the mask.  The viewer binarizes a floating-point mask in the same way, but
  binarizes an integer mask by \<open>value > 0\<close>.
\<close>

theorem auto_policy_by_variant:
  "mask_out_arr ub ''auto'' t Kind_i (SInts vs) = Inr (map int_to_u8 vs)
   \<and> mask_out_arr ub ''auto'' t Kind_u (UInts vs) = Inr (map int_to_u8 vs)
   \<and> uint (int_to_u8 v) = v mod 256
   \<and> mask_out_arr ub ''auto'' t Kind_f (Floats ft xs) =
       Inr (map (\<lambda>x. if fgt x (cast_float ft t) then 1 else 0) xs)
   \<and> main_lab t Kind_f (Floats ft xs) =
       Inr (map (\<lambda>x. if fgt x (cast_float ft t) then 1 else 0) xs)
   \<and> main_lab t Kind_i (SInts vs) = Inr (map (\<lambda>v. if 0 < v then 1 else 0) vs)
   \<and> main_lab t Kind_u (UInts vs) = Inr (map (\<lambda>v. if 0 < v then 1 else 0) vs)"
  by (simp add: mask_out_arr_def main_lab_def binarize_def bool_to_u8_def is_integer_dtype_def
      int_to_u8_def uint_word_of_int take_bit_eq_mod)

theorem auto_policy_by_variant_witness:
  "mask_out_arr ub_zero ''auto'' (Fin (1 / 2)) Kind_u (UInts [0, 1, 2, 3]) = Inr [0, 1, 2, 3]
   \<and> main_lab (Fin (1 / 2)) Kind_u (UInts [0, 1, 2, 3]) = Inr [0, 1, 1, 1]
   \<and> mask_out_arr ub_zero ''auto'' (Fin (1 / 2)) Kind_f (contents float_volume)
       = Inr [0, 0, 0, 1, 1, 0, 1, 0]
   \<and> main_lab (Fin (1 / 2)) Kind_f (contents float_volume) = Inr [0, 0, 0, 1, 1, 0, 1, 0]"
  using auto_policy_by_variant [of ub_zero "Fin (1 / 2)" "[0, 1, 2, 3]" 0 Float32
      "[Fin 0, Fin (1 / 4), Fin (1 / 2), Fin 1, Fin 3, NaN, PInf, Fin (- 2)]"]
  by (simp add: float_volume_def int_to_u8_def cast_float_half)

text \<open>
  C3 as stated fails for the viewer: the unsigned mask with the labels 0, 1, 2, 3
  is written as 0, 1, 1, 1, while the direct cast keeps 0, 1, 2, 3.
\<close>

theorem viewer_integer_mask_counterexample:
  "astype_uint8 ub_zero (UInts [0, 1, 2, 3]) = Inr [0, 1, 2, 3]
   \<and> main_lab (Fin (1 / 2)) Kind_u (UInts [0, 1, 2, 3]) = Inr [0, 1, 1, 1]
   \<and> main_lab (Fin (1 / 2)) Kind_u (UInts [0, 1, 2, 3]) \<noteq> astype_uint8 ub_zero (UInts [0, 1, 2, 3])"
  by (simp add: main_lab_def bool_to_u8_def int_to_u8_def)

text \<open>
  C4 (as amended).  Under \<open>threshold\<close>, \<open>convert_one\<close> binarizes by the NumPy
  comparison \<open>arr > threshold\<close> whatever the element type of the source.  For a
  floating-point source NumPy first converts the configured threshold to the type
  of the source; for an integer source it converts each element to a double.
  When the threshold is a value of the source's type, as 0.5 is of every type,
  and the integer elements are at most \<open>2 ^ 53\<close> in magnitude, this is the strict
  comparison of the element with the configured threshold.  For the floats
  nearest to 0.2 and 0.6 and the float 0.5, in double and in single precision,
  with the threshold 0.5, the result is 0, 1, 0.
\<close>

theorem threshold_policy_binarizes:
  "mask_out_arr ub ''threshold'' t dt arr = binarize arr t
   \<and> mask_out_arr ub ''threshold'' t dt (Floats ft xs) =
       Inr (map (\<lambda>x. if fgt x (cast_float ft t) then 1 else 0) xs)
   \<and> mask_out_arr ub ''threshold'' t dt (SInts vs) =
       Inr (map (\<lambda>v. if fgt (Fin (f64_of_int v)) t then 1 else 0) vs)
   \<and> mask_out_arr ub ''threshold'' t dt (UInts vs) =
       Inr (map (\<lambda>v. if fgt (Fin (f64_of_int v)) t then 1 else 0) vs)
   \<and> (cast_float ft t = t \<longrightarrow>
        mask_out_arr ub ''threshold'' t dt (Floats ft xs) =
          Inr (map (\<lambda>x. if fgt x t then 1 else 0) xs))
   \<and> ((\<forall>v\<in>set vs. \<bar>v\<bar> \<le> 2 ^ 53) \<longrightarrow>
        mask_out_arr ub ''threshold'' t dt (SInts vs) =
          Inr (map (\<lambda>v. if fgt (Fin (of_int v)) t then 1 else 0) vs)
        \<and> mask_out_arr ub ''threshold'' t dt (UInts vs) =
          Inr (map (\<lambda>v. if fgt (Fin (of_int v)) t then 1 else 0) vs))
   \<and> cast_float ft (Fin (1 / 2)) = Fin (1 / 2)
   \<and> mask_out_arr ub ''threshold'' (Fin (1 / 2)) Kind_f
        (Floats Float64 [Fin (3602879701896397 / 18014398509481984),
                         Fin (5404319552844595 / 9007199254740992), Fin (1 / 2)]) = Inr [0, 1, 0]
   \<and> mask_out_arr ub ''threshold'' (Fin (1 / 2)) Kind_f
        (Floats Float32 [Fin (13421773 / 67108864), Fin (5033165 / 8388608), Fin (1 / 2)])
        = Inr [0, 1, 0]"
proof -
  have ints: "map (\<lambda>v. if fgt (Fin (f64_of_int v)) t then 1 else 0 :: 8 word) vs
            = map (\<lambda>v. if fgt (Fin (of_int v)) t then 1 else 0) vs"
    if "\<forall>v\<in>set vs. \<bar>v\<bar> \<le> 2 ^ 53"
    using that by (intro map_cong refl) (simp add: f64_of_int_exact)
  show ?thesis
    using ints
    by (simp add: mask_out_arr_def binarize_def bool_to_u8_def cast_float_half comp_def)
qed

theorem threshold_policy_binarizes_witness:
  "mask_out_arr ub_zero ''threshold'' (Fin (1 / 4)) Kind_f
     (Floats Float32 [Fin 0, Fin (1 / 4), Fin (1 / 2), Fin 1, Fin 3, NaN, PInf, Fin (- 2)])
     = Inr [0, 0, 1, 1, 1, 0, 1, 0]
   \<and> mask_out_arr ub_zero ''threshold'' (Fin (1 / 2)) Kind_i (SInts [0, 1, 2, - 1])
     = Inr [0, 1, 1, 0]"
proof -
  have h1: "cast_float Float32 (Fin (1 / 4)) = Fin (1 / 4)"
    by (simp add: float_eval)
  have h2: "\<forall>v\<in>set [0, 1, 2, - 1 :: int]. \<bar>v\<bar> \<le> 2 ^ 53"
    by simp
  have a: "mask_out_arr ub_zero ''threshold'' (Fin (1 / 4)) Kind_f
     (Floats Float32 [Fin 0, Fin (1 / 4), Fin (1 / 2), Fin 1, Fin 3, NaN, PInf, Fin (- 2)])
     = Inr (map (\<lambda>x. if fgt x (Fin (1 / 4)) then 1 else 0)
         [Fin 0, Fin (1 / 4), Fin (1 / 2), Fin 1, Fin 3, NaN, PInf, Fin (- 2)])"
    using h1 threshold_policy_binarizes [of ub_zero "Fin (1 / 4)" Kind_f Opaque Float32
      "[Fin 0, Fin (1 / 4), Fin (1 / 2), Fin 1, Fin 3, NaN, PInf, Fin (- 2)]" "[]"]
    by blast
  have b: "mask_out_arr ub_zero ''threshold'' (Fin (1 / 2)) Kind_i (SInts [0, 1, 2, - 1])
     = Inr (map (\<lambda>v. if fgt (Fin (of_int v)) (Fin (1 / 2)) then 1 else 0) [0, 1, 2, - 1])"
    using h2 threshold_policy_binarizes [of ub_zero "Fin (1 / 2)" Kind_i Opaque Float32
      "[]" "[0, 1, 2, - 1]"]
    by blast
  show ?thesis
    using a b by simp
qed

text \<open>
  C4 as stated fails: the single-precision element nearest to 0.1 is greater than
  the configured threshold, the double nearest to 0.1, and is written as 0; the
  integer element \<open>2 ^ 53 + 1\<close> is greater than the threshold \<open>2 ^ 53\<close> and is
  written as 0.
\<close>

theorem threshold_rounding_counterexample:
  "(3602879701896397 / 36028797018963968 :: rat) < 13421773 / 134217728
   \<and> mask_out_arr ub_zero ''threshold'' (Fin (3602879701896397 / 36028797018963968)) Kind_f
        (Floats Float32 [Fin (13421773 / 134217728)]) = Inr [0]
   \<and> (9007199254740992 :: int) < 9007199254740993
   \<and> mask_out_arr ub_zero ''threshold'' (Fin 9007199254740992) Kind_i
        (SInts [9007199254740993]) = Inr [0]"
  by (simp add: mask_out_arr_def binarize_def bool_to_u8_def float_eval f64_of_int_def)

text \<open>
  C9.  A mask whose elements are all 0 or 1, of an integer or a floating-point
  type, is normalized under \<open>round\<close>, and under \<open>threshold\<close> with the threshold 0.5,
  to a \<open>uint8\<close> array with the same element values.
\<close>

theorem binary_mask_normalization_idempotent:
  assumes ints: "\<forall>v\<in>set vs. v = 0 \<or> v = 1"
    and floats: "\<forall>x\<in>set xs. x = Fin 0 \<or> x = Fin 1"
    and policy: "mode = ''round'' \<or> (mode = ''threshold'' \<and> t = Fin (1 / 2))"
  shows "(\<exists>out. mask_out_arr ub mode t dt (SInts vs) = Inr out \<and> map uint out = vs)
       \<and> (\<exists>out. mask_out_arr ub mode t dt (UInts vs) = Inr out \<and> map uint out = vs)
       \<and> (\<exists>out. mask_out_arr ub mode t dt (Floats ft xs) = Inr out
              \<and> map (\<lambda>w. Fin (of_int (uint w))) out = xs)"
proof -
  have r_int: "map (\<lambda>v. uint (float_to_u8 ub (rint (Fin (f64_of_int v))))) vs = vs"
    by (intro map_idI round_cast_binary_int) (use ints in blast)
  have t_int: "map (\<lambda>v. uint (bool_to_u8 (fgt (Fin (f64_of_int v)) (Fin (1 / 2))))) vs = vs"
    by (intro map_idI threshold_binary_int) (use ints in blast)
  have r_float: "map (\<lambda>x. Fin (of_int (uint (float_to_u8 ub (rint x))))) xs = xs"
    by (intro map_idI round_cast_binary_float) (use floats in blast)
  have t_float:
    "map (\<lambda>x. Fin (of_int (uint (bool_to_u8 (fgt x (cast_float ft (Fin (1 / 2)))))))) xs = xs"
    by (intro map_idI threshold_binary_float) (use floats in blast)
  from policy show ?thesis
  proof
    assume "mode = ''round''"
    then show ?thesis
      using r_int r_float by (simp add: mask_out_arr_def comp_def)
  next
    assume "mode = ''threshold'' \<and> t = Fin (1 / 2)"
    then show ?thesis
      using t_int t_float by (simp add: mask_out_arr_def binarize_def comp_def)
  qed
qed

theorem binary_mask_normalization_idempotent_witness:
  "(\<exists>out. mask_out_arr ub_zero ''round'' (Fin 3) Kind_i (SInts [0, 1, 1, 0]) = Inr out
          \<and> map uint out = [0, 1, 1, 0])
   \<and> (\<exists>out. mask_out_arr ub_zero ''threshold'' (Fin (1 / 2)) Kind_f
              (Floats Float16 [Fin 1, Fin 0, Fin 1]) = Inr out
          \<and> map (\<lambda>w. Fin (of_int (uint w))) out = [Fin 1, Fin 0, Fin 1])"
proof -
  have h1: "\<forall>v\<in>set [0, 1, 1, 0 :: int]. v = 0 \<or> v = 1" by simp
  have h2: "\<forall>x\<in>set [Fin 1, Fin 0, Fin 1]. x = Fin 0 \<or> x = Fin 1" by simp
  have p1: "''round'' = ''round'' \<or> (''round'' = ''threshold'' \<and> Fin 3 = Fin (1 / 2))"
    by simp
  have p2: "''threshold'' = ''round'' \<or> (''threshold'' = ''threshold'' \<and> Fin (1 / 2) = Fin (1 / 2))"
    by simp
  show ?thesis
    using binary_mask_normalization_idempotent [OF h1 h2 p1, of ub_zero Kind_i Float16]
      binary_mask_normalization_idempotent [OF h1 h2 p2, of ub_zero Kind_f Float16]
    by blast
qed

text \<open>
  C10.  Every element of the array \<open>lab\<close> that the viewer writes for a mask is 0
  or 1, and the array is defined for every numeric source.  An integer source is
  binarized by \<open>value > 0\<close>, so every label above 1 becomes 1; a floating-point
  source is binarized by \<open>value > threshold\<close>, the threshold converted to the type
  of the source.
\<close>

theorem viewer_mask_binary:
  "(main_lab t dt arr = Inr lab \<longrightarrow> (\<forall>w\<in>set lab. w = 0 \<or> w = 1))
   \<and> (arr \<noteq> Opaque \<longrightarrow> (\<exists>lab. main_lab t (kind_of arr) arr = Inr lab))
   \<and> main_lab t Kind_i (SInts vs) = Inr (map (\<lambda>v. if 0 < v then 1 else 0) vs)
   \<and> main_lab t Kind_u (UInts vs) = Inr (map (\<lambda>v. if 0 < v then 1 else 0) vs)
   \<and> main_lab t Kind_f (Floats ft xs) =
       Inr (map (\<lambda>x. if fgt x (cast_float ft t) then 1 else 0) xs)"
proof -
  have "main_lab t dt arr = Inr lab \<Longrightarrow> w \<in> set lab \<Longrightarrow> w = 0 \<or> w = 1" for w
    by (cases arr) (auto simp: main_lab_def binarize_def bool_to_u8_def split: if_splits)
  moreover have "arr \<noteq> Opaque \<Longrightarrow> \<exists>lab. main_lab t (kind_of arr) arr = Inr lab"
    by (cases arr) (simp_all add: main_lab_def binarize_def)
  ultimately show ?thesis
    by (simp add: main_lab_def binarize_def bool_to_u8_def)
qed

theorem viewer_mask_binary_witness:
  "main_lab (Fin (1 / 2)) Kind_i (SInts [0, 1, 2, 7, - 3]) = Inr [0, 1, 1, 1, 0]
   \<and> set [0, 1, 1, 1, 0] \<subseteq> {0, 1 :: 8 word}
   \<and> (\<exists>lab. main_lab (Fin (1 / 2)) (kind_of (Floats Float64 [Fin 1, NaN]))
          (Floats Float64 [Fin 1, NaN]) = Inr lab)"
proof -
  have h: "main_lab (Fin (1 / 2)) Kind_i (SInts [0, 1, 2, 7, - 3]) = Inr [0, 1, 1, 1, 0]"
    by (simp add: main_lab_def bool_to_u8_def)
  have n: "Floats Float64 [Fin 1, NaN] \<noteq> Opaque"
    by simp
  show ?thesis
    using h viewer_mask_binary [of "Fin (1 / 2)" Kind_i "SInts [0, 1, 2, 7, - 3]" "[0, 1, 1, 1, 0]"]
      n viewer_mask_binary [of "Fin (1 / 2)" Kind_f "Floats Float64 [Fin 1, NaN]" "[]"]
    by blast
qed

section \<open>Properties of the conversion\<close>

lemmas convert_eval =
  convert_one_def default_rng_def list_valid_datasets_def List.map_filter_def
  is_metadata_name_def endswith_def suffix_to_prefix lower_def lower_char_def
  is_numeric_dtype_def dtype_def is_3d_like_shape_def dataset_kind_def is_mask_name_def
  read_dataset_def squeeze_to_3d_def sanitize_filename_def strip_slashes_def safe_char_def
  path_join_def mask_out_arr_def makedirs_def fs_writable_def Let_def

lemma mask_out_arr_unknown:
  "mm \<notin> {''auto'', ''threshold'', ''round''} \<Longrightarrow>
     mask_out_arr ub mm t dt arr = Inl (ValueError_unknown_mask_mode mm)"
  by (simp add: mask_out_arr_def)

lemma read_dataset_error:
  "read_dataset fs f n \<noteq> Inl (ValueError_unknown_mask_mode m)"
  by (simp add: read_dataset_def split: option.splits h5obj.splits)

lemma squeeze_to_3d_error:
  "squeeze_to_3d ds \<noteq> Inl (ValueError_unknown_mask_mode m)"
  by (simp add: squeeze_to_3d_def Let_def)

text \<open>
  C6.  With a seed, the whole outcome of \<open>convert_one\<close> (what it prints, reads and
  writes, and what it returns) is the same whatever the entropy of the
  invocation; and a dry run, which only selects, has the same outcome for any
  two calls with the same seed and the same candidate sequence.
\<close>

theorem seeded_pick_deterministic:
  "convert_one seeded ub e1 fs f out_dir fk (Some s) mm t dry
     = convert_one seeded ub e2 fs f out_dir fk (Some s) mm t dry
   \<and> (list_valid_datasets f1 fk1 = list_valid_datasets f2 fk2 \<longrightarrow>
        convert_one seeded ub1 e1 fs1 f1 out1 fk1 (Some s) mm1 t1 True
          = convert_one seeded ub2 e2 fs2 f2 out2 fk2 (Some s) mm2 t2 True)"
  by (simp add: convert_one_def default_rng_def Let_def)

theorem seeded_pick_deterministic_witness:
  "convert_one rng_zero ub_zero entropy_zero fs_writable
       [(''a'', Dataset float_volume), (''b'', Dataset float_volume)]
       ''out'' ''any'' (Some 7) ''auto'' (Fin (1 / 2)) False
     = convert_one rng_zero ub_zero entropy_last fs_writable
       [(''a'', Dataset float_volume), (''b'', Dataset float_volume)]
       ''out'' ''any'' (Some 7) ''auto'' (Fin (1 / 2)) False
   \<and> convert_one rng_zero ub_zero entropy_zero fs_writable
       [(''a'', Dataset float_volume), (''b'', Dataset float_volume)]
       ''out'' ''any'' (Some 7) ''auto'' (Fin (1 / 2)) True
     = convert_one rng_zero ub_zero entropy_last fs_writable
       [(''grp'', Group), (''a'', Dataset float_volume), (''b'', Dataset float_volume)]
       ''tmp'' ''image'' (Some 7) ''round'' (Fin 0) True"
proof -
  have h: "list_valid_datasets [(''a'', Dataset float_volume), (''b'', Dataset float_volume)] ''any''
         = list_valid_datasets
             [(''grp'', Group), (''a'', Dataset float_volume), (''b'', Dataset float_volume)] ''image''"
    by (simp add: convert_eval float_volume_def)
  show ?thesis
    using h seeded_pick_deterministic [of rng_zero ub_zero entropy_zero fs_writable
        "[(''a'', Dataset float_volume), (''b'', Dataset float_volume)]"
        "''out''" "''any''" 7 "''auto''" "Fin (1 / 2)" False entropy_last
        "[(''a'', Dataset float_volume), (''b'', Dataset float_volume)]" "''any''"
        "[(''grp'', Group), (''a'', Dataset float_volume), (''b'', Dataset float_volume)]"
        "''image''" ub_zero fs_writable "''out''" "''auto''" "Fin (1 / 2)"
        ub_zero fs_writable "''tmp''" "''round''" "Fin 0"]
    by blast
qed

text \<open>
  C7.  When no dataset passes the filters, \<open>convert_one\<close> prints that nothing was
  found and returns \<open>(None, None)\<close>; it draws nothing, reads nothing and raises
  nothing.
\<close>

theorem no_candidates_returns_none:
  assumes "list_valid_datasets f fk = []"
  shows "convert_one seeded ub entropy fs f out_dir fk seed mm t dry
           = ([Print_no_valid_datasets], Inr (None, None))"
  using assms by (simp add: convert_one_def Let_def)

theorem no_candidates_returns_none_witness:
  "convert_one rng_zero ub_zero entropy_zero fs_writable
       [(''grp'', Group), (''grp/x_mask_NAMES'', Dataset names_volume)]
       ''out'' ''any'' None ''auto'' (Fin (1 / 2)) False
     = ([Print_no_valid_datasets], Inr (None, None))"
proof -
  have h: "list_valid_datasets [(''grp'', Group), (''grp/x_mask_NAMES'', Dataset names_volume)]
             ''any'' = []"
    by (simp add: convert_eval)
  show ?thesis
    using no_candidates_returns_none [OF h] by simp
qed

text \<open>
  C8 (as amended).  For a \<open>mask_mode\<close> other than \<open>auto\<close>, \<open>threshold\<close> and \<open>round\<close>,
  \<open>convert_one\<close> raises the error for the unknown mode exactly when a mask is
  selected and converted: there are candidates, the run is not a dry run, the
  selected entry is a mask, its data has been read and squeezed to three
  dimensions, and the output directory has been made.  By then the data has been
  read and the directory made; nothing has been saved.
\<close>

theorem unknown_mask_mode_raised_late:
  assumes "mm \<notin> {''auto'', ''threshold'', ''round''}"
  shows "let cands = list_valid_datasets f fk;
             i = default_rng seeded entropy seed (length cands);
             name = c_name (cands ! i);
             res = convert_one seeded ub entropy fs f out_dir fk seed mm t dry
         in (snd res = Inl (ValueError_unknown_mask_mode m) \<longleftrightarrow>
               m = mm \<and> cands \<noteq> [] \<and> i < length cands \<and> \<not> dry
               \<and> c_kind (cands ! i) = ''mask''
               \<and> (\<exists>ds arr. read_dataset fs f name = Inr ds \<and> squeeze_to_3d ds = Inr arr)
               \<and> makedirs fs out_dir)
          \<and> (snd res = Inl (ValueError_unknown_mask_mode m) \<longrightarrow>
               fst res = [Print_selected name, Read_dataset name, Makedirs out_dir])"
  using mask_out_arr_unknown [OF assms]
  by (auto simp: convert_one_def Let_def read_dataset_error squeeze_to_3d_error
      split: sum.splits)

theorem unknown_mask_mode_raised_late_witness:
  "snd (convert_one rng_zero ub_zero entropy_zero fs_writable
          [(''a_mask_1'', Dataset float_volume)]
          ''out'' ''any'' (Some 3) ''bogus'' (Fin (1 / 2)) False)
     = Inl (ValueError_unknown_mask_mode ''bogus'')
   \<and> fst (convert_one rng_zero ub_zero entropy_zero fs_writable
          [(''a_mask_1'', Dataset float_volume)]
          ''out'' ''any'' (Some 3) ''bogus'' (Fin (1 / 2)) False)
     = [Print_selected ''a_mask_1'', Read_dataset ''a_mask_1'', Makedirs ''out'']"
proof -
  have h: "''bogus'' \<notin> {''auto'', ''threshold'', ''round''}"
    by simp
  have c: "list_valid_datasets [(''a_mask_1'', Dataset float_volume)] ''any''
             = [\<lparr>c_name = ''a_mask_1'', c_shape = [1, 2, 2, 2], c_dtype = Kind_f,
                 c_kind = ''mask''\<rparr>]"
    by (simp add: list_valid_datasets_def List.map_filter_def is_metadata_name_def
        endswith_def suffix_to_prefix lower_def lower_char_def is_numeric_dtype_def dtype_def
        is_3d_like_shape_def dataset_kind_def is_mask_name_def float_volume_def)
  have r: "read_dataset fs_writable [(''a_mask_1'', Dataset float_volume)] ''a_mask_1''
             = Inr float_volume"
    by (simp add: read_dataset_def fs_writable_def)
  have q: "squeeze_to_3d float_volume = Inr (contents float_volume)"
    by (simp add: squeeze_to_3d_def float_volume_def)
  have d: "makedirs fs_writable ''out''"
    by (simp add: makedirs_def fs_writable_def)
  show ?thesis
    using unknown_mask_mode_raised_late [OF h, of "[(''a_mask_1'', Dataset float_volume)]"
        "''any''" rng_zero entropy_zero "Some 3" ub_zero fs_writable "''out''" "Fin (1 / 2)"
        False "''bogus''"]
    by (simp add: Let_def c r q d default_rng_def rng_zero_def)
qed

text \<open>
  C8 as stated fails: with the mode \<open>bogus\<close>, an image is converted and saved with
  no error at all; for a mask the error comes after the dataset has been read and
  the output directory made; and with an empty output directory the call fails in
  \<open>os.makedirs\<close> before the mode is looked at.
\<close>

theorem unknown_mask_mode_counterexample:
  "convert_one rng_zero ub_zero entropy_zero fs_writable [(''vol'', Dataset float_volume)]
       ''out'' ''any'' None ''bogus'' (Fin (1 / 2)) False
     = ([Print_selected ''vol'', Read_dataset ''vol'', Makedirs ''out'',
         Save ''out/vol.nii.gz'' (Image_float32 (contents float_volume)),
         Print_wrote ''out/vol.nii.gz''],
        Inr (Some ''out/vol.nii.gz'', Some ''vol''))
   \<and> convert_one rng_zero ub_zero entropy_zero fs_writable
       [(''a_mask_1'', Dataset float_volume)]
       ''out'' ''any'' None ''bogus'' (Fin (1 / 2)) False
     = ([Print_selected ''a_mask_1'', Read_dataset ''a_mask_1'', Makedirs ''out''],
        Inl (ValueError_unknown_mask_mode ''bogus''))
   \<and> convert_one rng_zero ub_zero entropy_zero fs_writable
       [(''a_mask_1'', Dataset float_volume)]
       [] ''any'' None ''bogus'' (Fin (1 / 2)) False
     = ([Print_selected ''a_mask_1'', Read_dataset ''a_mask_1''], Inl (OSError []))"
  by (simp add: convert_eval entropy_zero_def float_volume_def)

section \<open>Properties of the background lookup\<close>

lemma str_contains_sublist: "str_contains sub s = sublist sub s"
  by (induction s) (auto simp: sublist_Cons_right)

lemma split_first_absent: "\<not> str_contains sep s \<Longrightarrow> split_first sep s = s"
  by (induction s) auto

lemma split_first_first:
  assumes "sep \<noteq> []" and "\<not> str_contains sep (p @ butlast sep)"
  shows "split_first sep (p @ sep @ t) = p"
  using assms(2)
proof (induction p)
  case Nil
  from assms(1) obtain c cs where "sep = c # cs" by (cases sep) auto
  then show ?case by simp
next
  case (Cons a p)
  have len: "length sep \<le> length (a # p @ butlast sep)"
    by simp
  have "\<not> prefix sep (a # p @ sep @ t)"
  proof
    assume pre: "prefix sep (a # p @ sep @ t)"
    have "a # p @ sep @ t = (a # p @ butlast sep) @ (last sep # t)"
      using assms(1) by simp
    with pre have "prefix sep ((a # p @ butlast sep) @ (last sep # t))"
      by simp
    then have "prefix sep (a # p @ butlast sep)"
      using len by (metis prefix_length_prefix prefixI)
    with Cons.prems show False by simp
  qed
  moreover have "\<not> str_contains sep (p @ butlast sep)"
    using Cons.prems by simp
  ultimately show ?case
    using Cons.IH by simp
qed

lemma split_first_no_token_start:
  "no_token_start xs \<Longrightarrow> split_first ''_mask_tibia'' (xs @ ''_mask_tibia'' @ t) = xs"
  by (induction xs rule: no_token_start.induct) auto

lemma no_token_start_no_underscore:
  "\<forall>c\<in>set xs. c \<noteq> CHR ''_'' \<Longrightarrow> no_token_start xs"
  by (induction xs rule: no_token_start.induct) auto

lemma no_token_start_append:
  "no_token_start xs \<Longrightarrow> no_token_start ys \<Longrightarrow> no_token_start (xs @ ys)"
proof (induction xs rule: no_token_start.induct)
  case (2 c)
  then show ?case by (cases ys) auto
qed auto

lemma no_token_start_tails: "r \<in> set img_name_tails \<Longrightarrow> no_token_start r"
  by (auto simp: img_name_tails_def)

lemma IMG_NAME_RE_match_no_token_start:
  assumes "IMG_NAME_RE_match s"
  shows "no_token_start s"
proof -
  have "\<forall>c\<in>set (takeWhile is_digit s). c \<noteq> CHR ''_''"
    by (auto dest!: set_takeWhileD simp: is_digit_def)
  then have "no_token_start (takeWhile is_digit s)"
    by (rule no_token_start_no_underscore)
  moreover have "no_token_start (dropWhile is_digit s)"
    using assms by (simp add: IMG_NAME_RE_match_def no_token_start_tails)
  ultimately have "no_token_start (takeWhile is_digit s @ dropWhile is_digit s)"
    by (rule no_token_start_append)
  then show ?thesis by simp
qed

lemma strip_ext_decomp:
  "name = strip_ext name \<or> name = strip_ext name @ ''.nii'' \<or> name = strip_ext name @ ''.nii.gz''"
proof (cases "endswith name ''.nii.gz''")
  case True
  then have "name = take (length name - 7) name @ ''.nii.gz''"
    by (auto simp: endswith_def suffix_def)
  with True show ?thesis by (simp add: strip_ext_def)
next
  case gz: False
  show ?thesis
  proof (cases "endswith name ''.nii''")
    case True
    then have "name = take (length name - 4) name @ ''.nii''"
      by (auto simp: endswith_def suffix_def)
    with gz True show ?thesis by (simp add: strip_ext_def)
  next
    case False
    with gz show ?thesis by (simp add: strip_ext_def)
  qed
qed

lemma classify_kind_image_no_token_start:
  assumes "classify_kind p = ''image''"
  shows "no_token_start p"
proof -
  from assms have "IMG_NAME_RE_match p \<or> IMG_NAME_RE_match (strip_ext p)"
    by (auto simp: classify_kind_def Let_def split: if_splits)
  then show ?thesis
  proof
    assume "IMG_NAME_RE_match p"
    then show ?thesis by (rule IMG_NAME_RE_match_no_token_start)
  next
    assume "IMG_NAME_RE_match (strip_ext p)"
    then have b: "no_token_start (strip_ext p)"
      by (rule IMG_NAME_RE_match_no_token_start)
    have e1: "no_token_start ''.nii''" and e2: "no_token_start ''.nii.gz''"
      by simp_all
    from strip_ext_decomp [of p] show ?thesis
      using b no_token_start_append [OF b e1] no_token_start_append [OF b e2]
      by (elim disjE) simp_all
  qed
qed

lemma base_from_mask_round_trip:
  assumes "classify_kind p = ''image''"
  shows "base_from_mask (p @ ''_mask_tibia'' @ t) = p"
proof -
  have "sublist ''mask_tibia'' (p @ ''_mask_tibia'' @ t)"
    unfolding sublist_def
    by (rule exI [of _ "p @ ''_''"], rule exI [of _ t]) simp
  then have "str_contains MASK_TOKEN (p @ ''_mask_tibia'' @ t)"
    by (simp add: str_contains_sublist MASK_TOKEN_def)
  moreover have "split_first ''_mask_tibia'' (p @ ''_mask_tibia'' @ t) = p"
    using classify_kind_image_no_token_start [OF assms] by (rule split_first_no_token_start)
  ultimately show ?thesis
    by (simp add: base_from_mask_def MASK_TOKEN_def)
qed


lemma str_contains_token_append:
  "str_contains MASK_TOKEN (p @ ''_mask_tibia'' @ t)"
proof -
  have "sublist ''mask_tibia'' (p @ ''_mask_tibia'' @ t)"
    unfolding sublist_def
    by (rule exI [of _ "p @ ''_''"], rule exI [of _ t]) simp
  then show ?thesis
    by (simp add: str_contains_sublist MASK_TOKEN_def)
qed

text \<open>
  C5 (as amended).  \<open>base_from_mask\<close> cuts the name at the first occurrence of
  \<open>_mask_tibia\<close>, the underscore followed by the mask token, and leaves a name
  without it whole.  The lookup tries the base, the base with \<open>.nii\<close> and the base
  with \<open>.nii.gz\<close>, in this order, and yields the first that is in the file and
  classifies as an image, or \<open>None\<close>.  For a name \<open>q\<close> that is in the file and
  classifies as an image, the lookup from \<open>q_mask_tibia\<close> followed by anything
  yields \<open>q\<close>.
\<close>

theorem companion_lookup:
  "let b = base_from_mask name;
       ok = (\<lambda>k. k \<in> fst ` set f \<and> classify_kind k = ''image'')
   in (\<not> str_contains ''_mask_tibia'' name \<longrightarrow> b = name)
    \<and> (name = p @ ''_mask_tibia'' @ t \<and> \<not> str_contains ''_mask_tibia'' (p @ ''_mask_tibi'') \<longrightarrow>
         b = p)
    \<and> main_bg_key f name =
        (if ok b then Some b
         else if ok (b @ ''.nii'') then Some (b @ ''.nii'')
         else if ok (b @ ''.nii.gz'') then Some (b @ ''.nii.gz'')
         else None)
    \<and> (q \<in> fst ` set f \<and> classify_kind q = ''image'' \<longrightarrow>
         main_bg_key f (q @ ''_mask_tibia'' @ t') = Some q)"
proof -
  have absent: "base_from_mask name = name" if "\<not> str_contains ''_mask_tibia'' name"
    using that by (simp add: base_from_mask_def MASK_TOKEN_def split_first_absent)
  have first: "base_from_mask name = p"
    if "name = p @ ''_mask_tibia'' @ t" "\<not> str_contains ''_mask_tibia'' (p @ ''_mask_tibi'')"
  proof -
    have "split_first ''_mask_tibia'' (p @ ''_mask_tibia'' @ t) = p"
      using that(2) by (intro split_first_first) simp_all
    then show ?thesis
      using that(1) str_contains_token_append [of p t]
      by (simp add: base_from_mask_def MASK_TOKEN_def)
  qed
  have trip: "main_bg_key f (q @ ''_mask_tibia'' @ t') = Some q"
    if "q \<in> fst ` set f" "classify_kind q = ''image''"
    using that base_from_mask_round_trip [OF that(2), of t']
    by (simp add: main_bg_key_def Let_def)
  show ?thesis
    using absent first trip by (simp add: main_bg_key_def Let_def)
qed

theorem companion_lookup_witness:
  "main_bg_key [(''7_tibia_L'', Dataset float_volume),
                (''7_tibia_L_mask_tibia_L'', Dataset names_volume)]
     (''7_tibia_L'' @ ''_mask_tibia'' @ ''_L'') = Some ''7_tibia_L''
   \<and> base_from_mask (''9_tibia_R'' @ ''_mask_tibia'' @ ''_R'') = ''9_tibia_R''
   \<and> base_from_mask ''xmask_tibia'' = ''xmask_tibia''"
proof -
  have h1: "''7_tibia_L'' \<in> fst ` set [(''7_tibia_L'', Dataset float_volume),
                (''7_tibia_L_mask_tibia_L'', Dataset names_volume)]"
    by simp
  have h2: "classify_kind ''7_tibia_L'' = ''image''"
    by (simp add: classify_kind_def strip_ext_def endswith_def suffix_to_prefix MASK_TOKEN_def
        IMG_NAME_RE_match_def is_digit_def img_name_tails_def)
  have h3: "\<not> str_contains ''_mask_tibia'' (''9_tibia_R'' @ ''_mask_tibi'')"
    by simp
  have h4: "\<not> str_contains ''_mask_tibia'' ''xmask_tibia''"
    by simp
  have a: "main_bg_key [(''7_tibia_L'', Dataset float_volume),
                (''7_tibia_L_mask_tibia_L'', Dataset names_volume)]
             (''7_tibia_L'' @ ''_mask_tibia'' @ ''_L'') = Some ''7_tibia_L''"
    using h1 h2
      companion_lookup [of "[]" "[(''7_tibia_L'', Dataset float_volume),
                (''7_tibia_L_mask_tibia_L'', Dataset names_volume)]" "[]" "[]" "''7_tibia_L''" "''_L''"]
    by (simp only: Let_def)
  have b: "base_from_mask (''9_tibia_R'' @ ''_mask_tibia'' @ ''_R'') = ''9_tibia_R''"
    using h3
      companion_lookup [of "''9_tibia_R'' @ ''_mask_tibia'' @ ''_R''" "[]" "''9_tibia_R''" "''_R''" "[]" "[]"]
    unfolding Let_def by blast
  have c: "base_from_mask ''xmask_tibia'' = ''xmask_tibia''"
    using h4 companion_lookup [of "''xmask_tibia''" "[]" "[]" "[]" "[]" "[]"]
    unfolding Let_def by blast
  show ?thesis
    using a b c by blast
qed

text \<open>
  C5 as stated fails for a mask path of the form \<open>P_mask_T\<close> in which \<open>_mask_\<close> is
  not followed by \<open>tibia\<close>: the image \<open>9_tibia_R\<close> is in the file, and the lookup
  from the mask \<open>9_tibia_R_mask_mask_tibia\<close> finds nothing.
\<close>

theorem companion_round_trip_counterexample:
  "classify_kind ''9_tibia_R'' = ''image''
   \<and> classify_kind ''9_tibia_R_mask_mask_tibia'' = ''mask''
   \<and> ''9_tibia_R'' @ ''_mask_'' @ ''mask_tibia'' = ''9_tibia_R_mask_mask_tibia''
   \<and> list_candidates [(''9_tibia_R'', Dataset float_volume),
                       (''9_tibia_R_mask_mask_tibia'', Dataset names_volume)] (Some ''mask'')
       = [\<lparr>c_name = ''9_tibia_R_mask_mask_tibia'', c_shape = [2, 2, 2], c_dtype = Kind_i,
            c_kind = ''mask''\<rparr>]
   \<and> base_from_mask ''9_tibia_R_mask_mask_tibia'' = ''9_tibia_R_mask''
   \<and> main_bg_key [(''9_tibia_R'', Dataset float_volume),
                   (''9_tibia_R_mask_mask_tibia'', Dataset names_volume)]
        ''9_tibia_R_mask_mask_tibia'' = None"
  by (simp add: classify_kind_def strip_ext_def endswith_def suffix_to_prefix MASK_TOKEN_def
      IMG_NAME_RE_match_def is_digit_def img_name_tails_def main_bg_key_def base_from_mask_def
      list_candidates_def List.map_filter_def is_metadata_def META_SUFFIX_def
      is_numeric_dtype_def dtype_def float_volume_def names_volume_def)

end
